theory Spec2Isabelle
  imports Complex_Main "HOL-Library.Word"
begin

section \<open>Data model\<close>

text \<open>
  The program is a Streamlit script (app.py) that glues librosa, matplotlib, Keras,
  TensorFlow, lime and OpenCV together. Its own functions are embedded below with
  explicit state passing; every call into one of those libraries that the script does
  not implement itself is a field of a record of library operations, each returning
  either the exception it raised or its value.

  Floating-point arrays are lists of reals; the one place where the script divides by a
  computed quantity (the Grad-CAM normalisation) uses a value type with explicit
  not-a-number and infinities, so that a division by zero is a visible result.
\<close>

datatype error =
    IndexError
  | ValueError
  | LibraryError (kind: string) (message: string)

text \<open>Python's \<open>str(e)\<close>, as the f-string of the model-loading handler formats it.\<close>

fun str_of_error :: "error \<Rightarrow> string" where
  "str_of_error IndexError = ''list index out of range''"
| "str_of_error ValueError = ''attempt to get argmax of an empty sequence''"
| "str_of_error (LibraryError k m) = m"

type_synonym byte = "8 word"

text \<open>A PIL RGB image: rows of pixels, each pixel a list of channel bytes.\<close>
type_synonym image = "byte list list list"

type_synonym tensor3 = "real list list list"
type_synonym batch = "tensor3 list"

text \<open>The output of \<open>model.predict\<close>: one row of class scores per batch element.\<close>
type_synonym prediction = "real list list"

text \<open>
  A loaded Keras model, through its only use in the script: \<open>model.predict\<close>, a
  function of the batch (inference does not change the model) that may raise.
\<close>
type_synonym keras_model = "batch \<Rightarrow> error + prediction"

definition class_names :: "string list" where
  "class_names = [''real'', ''fake'']"

text \<open>
  Subscripting a Python list with an integer: indices from 0 up to the length read from
  the front, indices from minus the length up to -1 read from the back, and anything
  else raises IndexError.
\<close>

definition list_get :: "'a list \<Rightarrow> int \<Rightarrow> error + 'a" where
  "list_get xs i =
     (if 0 \<le> i \<and> i < int (length xs) then Inr (xs ! nat i)
      else if i < 0 \<and> - int (length xs) \<le> i then Inr (xs ! nat (int (length xs) + i))
      else Inl IndexError)"

section \<open>Array helpers of numpy used by the script\<close>

text \<open>\<open>np.array(image_data) / 255.0\<close>: every channel byte divided by 255.\<close>

definition img_array1 :: "image \<Rightarrow> tensor3" where
  "img_array1 image_data = map (map (map (\<lambda>p. real (unat p) / 255))) image_data"

text \<open>\<open>np.expand_dims(a, axis=0)\<close>.\<close>

definition expand_dims :: "'a \<Rightarrow> 'a list" where
  "expand_dims a = [a]"

text \<open>
  \<open>np.argmax\<close> without an axis works on the flattened array and returns the index of
  the first occurrence of the maximum; on an empty array it raises ValueError.
  \<open>argmax_from xs i best bv\<close> scans the rest \<open>xs\<close>, whose first element has index \<open>i\<close>,
  with the best index and value so far.
\<close>

fun argmax_from :: "real list \<Rightarrow> nat \<Rightarrow> nat \<Rightarrow> real \<Rightarrow> nat" where
  "argmax_from [] i best bv = best"
| "argmax_from (x # xs) i best bv =
     (if bv < x then argmax_from xs (Suc i) i x else argmax_from xs (Suc i) best bv)"

definition np_argmax :: "real list list \<Rightarrow> error + nat" where
  "np_argmax a =
     (case concat a of
        [] \<Rightarrow> Inl ValueError
      | x # xs \<Rightarrow> Inr (argmax_from xs 1 0 x))"

section \<open>Classifier adapter: predictions\<close>

definition predictions :: "image \<Rightarrow> keras_model \<Rightarrow> error + (nat \<times> prediction)" where
  "predictions image_data model =
     (let img_array = img_array1 image_data;
          img_batch = expand_dims img_array
      in case model img_batch of
           Inl e \<Rightarrow> Inl e
         | Inr prediction \<Rightarrow>
             (case np_argmax prediction of
                Inl e \<Rightarrow> Inl e
              | Inr class_label \<Rightarrow> Inr (class_label, prediction)))"


section \<open>World state: files and the Streamlit page\<close>

text \<open>
  What \<open>st.pyplot\<close> receives: the two-panel matplotlib figure of an explainer, kept as
  the data drawn into it (the original image, the explanation panel and its title).
\<close>

datatype figure =
    LimeFigure (lime_original: image) (lime_temp: tensor3) (lime_mask: "int list list")
      (lime_title: string)
  | GradFigure (grad_original: image) (grad_overlay: image) (grad_title: string)

datatype ui_event =
    StWrite string
  | StSubheader string
  | StAudio "byte list"
  | StImage image
  | StPyplot figure
  | StError string
  | StInfo string

text \<open>
  The state a run works in: the files, the page, and matplotlib's process-wide
  configuration (\<open>rcParams\<close>: the figure and savefig resolution, the default colour
  map and so on), which the script never sets and which \<open>plt.figure\<close> and
  \<open>plt.savefig\<close> read.
\<close>

type_synonym rcparams = "string \<rightharpoonup> real"

record world =
  files :: "string \<rightharpoonup> byte list"
  ui :: "ui_event list"
  rcParams :: rcparams

definition st :: "world \<Rightarrow> ui_event list \<Rightarrow> world" where
  "st w evs = w\<lparr>ui := ui w @ evs\<rparr>"

text \<open>\<open>os.path.join\<close> of two components (POSIX).\<close>

definition path_join :: "string \<Rightarrow> string \<Rightarrow> string" where
  "path_join a b =
     (if b \<noteq> [] \<and> hd b = CHR ''/'' then b
      else if a = [] \<or> last a = CHR ''/'' then a @ b
      else a @ ''/'' @ b)"

text \<open>
  \<open>save_file\<close>: writes the uploaded buffer under the directory audio\_files and returns
  the name. Failures of the operating system (a full disk, a read-only directory) are
  not modelled.
\<close>

definition save_file :: "world \<Rightarrow> string \<times> byte list \<Rightarrow> world \<times> string" where
  "save_file w sound_file =
     (w\<lparr>files := (files w)(path_join ''audio_files'' (fst sound_file) \<mapsto> snd sound_file)\<rparr>,
      fst sound_file)"

section \<open>Feature extractor: create\_spectrogram\<close>

text \<open>
  The library calls of \<open>create_spectrogram\<close>, in the order the script makes them.
  \<open>librosa_load\<close> and \<open>load_img\<close> receive the content of the file they open (\<open>None\<close>
  when it does not exist); \<open>specshow_savefig\<close> stands for lines 26 to 36: creating the
  figure, drawing the spectrogram on its axes and rendering pyplot's current figure
  (the one just created) to PNG bytes, under matplotlib's configuration.
\<close>

record audio_libs =
  librosa_load :: "byte list option \<Rightarrow> error + (real list \<times> int)"
  melspectrogram :: "real list \<Rightarrow> int \<Rightarrow> error + real list list"
  power_to_db :: "real list list \<Rightarrow> error + real list list"
  specshow_savefig :: "rcparams \<Rightarrow> real list list \<Rightarrow> int \<Rightarrow> error + byte list"
  load_img :: "byte list option \<Rightarrow> nat \<times> nat \<Rightarrow> error + image"

definition create_spectrogram :: "audio_libs \<Rightarrow> world \<Rightarrow> string \<Rightarrow> world \<times> (error + image)" where
  "create_spectrogram L w sound =
     (let audio_file = path_join ''audio_files'' sound in
      case librosa_load L (files w audio_file) of
        Inl e \<Rightarrow> (w, Inl e)
      | Inr (y, sr) \<Rightarrow>
      (case melspectrogram L y sr of
        Inl e \<Rightarrow> (w, Inl e)
      | Inr ms \<Rightarrow>
      (case power_to_db L ms of
        Inl e \<Rightarrow> (w, Inl e)
      | Inr log_ms \<Rightarrow>
      (case specshow_savefig L (rcParams w) log_ms sr of
        Inl e \<Rightarrow> (w, Inl e)
      | Inr png \<Rightarrow>
      (let w1 = w\<lparr>files := (files w)(''melspectrogram.png'' \<mapsto> png)\<rparr> in
       case load_img L (files w1 ''melspectrogram.png'') (224, 224) of
         Inl e \<Rightarrow> (w1, Inl e)
       | Inr image_data \<Rightarrow> (st w1 [StImage image_data], Inr image_data))))))"

text \<open>The inputs the specification wants rejected.\<close>

definition degenerate_audio :: "real list \<Rightarrow> int \<Rightarrow> bool" where
  "degenerate_audio y sr = (y = [] \<or> list_all (\<lambda>s. s = hd y) y \<or> sr \<le> 0)"

section \<open>Perturbation explainer: lime\_predict\<close>

text \<open>
  The two calls that \<open>lime_predict\<close> makes into the lime package, over whatever object
  \<open>'x\<close> the package uses for an explanation: \<open>explain_instance\<close> (image, classifier
  function, hide colour, number of samples) and \<open>get_image_and_mask\<close> (explanation,
  label, positive\_only, num\_features, hide\_rest).
\<close>

record 'x lime_lib =
  explain_instance :: "tensor3 \<Rightarrow> keras_model \<Rightarrow> real \<Rightarrow> nat \<Rightarrow> error + 'x"
  get_image_and_mask :: "'x \<Rightarrow> nat \<Rightarrow> bool \<Rightarrow> nat \<Rightarrow> bool \<Rightarrow> error + (tensor3 \<times> int list list)"

text \<open>
  Line 65 of the script: the class that \<open>lime_predict\<close> explains, recomputed from the
  model on the same batch.
\<close>

definition lime_class_label :: "image \<Rightarrow> keras_model \<Rightarrow> error + nat" where
  "lime_class_label image_data model =
     (let img_array = img_array1 image_data;
          img_batch = expand_dims img_array
      in case model img_batch of
           Inl e \<Rightarrow> Inl e
         | Inr p \<Rightarrow> np_argmax p)"

text \<open>
  \<open>astype('double')\<close> changes nothing on reals; the figure is shown by \<open>st.pyplot\<close> only
  after the title was formatted.
\<close>

definition lime_predict ::
  "'x lime_lib \<Rightarrow> world \<Rightarrow> image \<Rightarrow> keras_model \<Rightarrow> world \<times> (error + figure)" where
  "lime_predict L w image_data model =
     (let img_array = img_array1 image_data in
      case explain_instance L img_array model 0 1000 of
        Inl e \<Rightarrow> (w, Inl e)
      | Inr explanation \<Rightarrow>
      (case lime_class_label image_data model of
        Inl e \<Rightarrow> (w, Inl e)
      | Inr class_label \<Rightarrow>
      (case get_image_and_mask L explanation class_label False 8 True of
        Inl e \<Rightarrow> (w, Inl e)
      | Inr (temp, msk) \<Rightarrow>
      (case list_get class_names (int class_label) of
         Inl e \<Rightarrow> (w, Inl e)
       | Inr name \<Rightarrow>
           (let fig = LimeFigure image_data temp msk (''Predicted class: '' @ name)
            in (st w [StPyplot fig], Inr fig))))))"

section \<open>The lime package, from the specification\<close>

text \<open>
  The lime package is not part of the repository. What it computes is taken from
  section 4.3 of the specification: an explanation holds the superpixel segmentation of
  the image and, per class, the regions with their fitted coefficients, ranked. The
  superpixel algorithm and the sampling and regression steps are operations of a backend.
\<close>

record explanation =
  exp_image :: tensor3
  segments :: "nat list list"
  local_exp :: "nat \<Rightarrow> (nat \<times> real) list"

record lime_backend =
  segmentation :: "tensor3 \<Rightarrow> nat list list"
  surrogate_fit ::
    "tensor3 \<Rightarrow> nat list list \<Rightarrow> keras_model \<Rightarrow> real \<Rightarrow> nat \<Rightarrow> error + (nat \<Rightarrow> nat \<Rightarrow> real)"

definition region_ids :: "nat list list \<Rightarrow> nat list" where
  "region_ids segs = remdups (concat segs)"

definition rank_regions :: "(nat \<times> real) list \<Rightarrow> (nat \<times> real) list" where
  "rank_regions ws = sort_key (\<lambda>rw. - \<bar>snd rw\<bar>) ws"

text \<open>
  Modelled from the spec: \<open>LimeImageExplainer.explain_instance\<close> (lime is missing from
  the sources). Step 1 segments the image into regions; a segmentation with no region
  fails with SegmentationError. Steps 2 to 4 (random masks, perturbed images filled with
  the hide colour, the classifier's probability on each, the weighted regression, and the
  choice between InsufficientSamplesError and a regularised fit) are \<open>surrogate_fit\<close>,
  which returns the fitted coefficient of every region for every class. The explanation
  keeps, per class, the regions ranked by the magnitude of their coefficient.
\<close>

definition spec_explain_instance ::
  "lime_backend \<Rightarrow> tensor3 \<Rightarrow> keras_model \<Rightarrow> real \<Rightarrow> nat \<Rightarrow> error + explanation" where
  "spec_explain_instance B img predict_fn hide_color num_samples =
     (let segs = segmentation B img;
          regions = region_ids segs
      in if regions = [] then Inl (LibraryError ''SegmentationError'' ''no regions'')
         else case surrogate_fit B img segs predict_fn hide_color num_samples of
                Inl e \<Rightarrow> Inl e
              | Inr coef \<Rightarrow>
                  Inr \<lparr>exp_image = img, segments = segs,
                       local_exp = (\<lambda>label. rank_regions (map (\<lambda>r. (r, coef label r)) regions))\<rparr>)"

definition hide_unselected :: "tensor3 \<Rightarrow> nat list list \<Rightarrow> nat list \<Rightarrow> tensor3" where
  "hide_unselected img segs fs =
     map (\<lambda>(prow, srow).
            map (\<lambda>(px, s). if s \<in> set fs then px else map (\<lambda>_. 0) px) (zip prow srow))
         (zip img segs)"

text \<open>
  Modelled from the spec: the selection of step 5 (lime is missing from the sources). The
  regions an explanation selects for a class are the top \<open>num_features\<close> of its
  ranking, only the positively contributing ones when \<open>positive_only\<close> is set.
\<close>

definition selected_regions :: "explanation \<Rightarrow> nat \<Rightarrow> bool \<Rightarrow> nat \<Rightarrow> nat list" where
  "selected_regions E label positive_only num_features =
     (let ranked = local_exp E label;
          candidates = (if positive_only then filter (\<lambda>rw. 0 < snd rw) ranked else ranked)
      in map fst (take num_features candidates))"

text \<open>
  Modelled from the spec: \<open>ImageExplanation.get_image_and_mask\<close> (lime is missing from
  the sources). The selected regions form the mask: a pixel is marked when its region is
  selected. With \<open>hide_rest\<close> the returned image keeps only the selected regions.
\<close>

definition spec_get_image_and_mask ::
  "explanation \<Rightarrow> nat \<Rightarrow> bool \<Rightarrow> nat \<Rightarrow> bool \<Rightarrow> tensor3 \<times> int list list" where
  "spec_get_image_and_mask E label positive_only num_features hide_rest =
     (let fs = selected_regions E label positive_only num_features;
          msk = map (map (\<lambda>s. if s \<in> set fs then 1 else 0)) (segments E);
          temp = (if hide_rest then hide_unselected (exp_image E) (segments E) fs
                  else exp_image E)
      in (temp, msk))"

text \<open>The lime package over a backend.\<close>

definition spec_lime :: "lime_backend \<Rightarrow> explanation lime_lib" where
  "spec_lime B =
     \<lparr>explain_instance = spec_explain_instance B,
      get_image_and_mask = (\<lambda>E label positive_only num_features hide_rest.
         Inr (spec_get_image_and_mask E label positive_only num_features hide_rest))\<rparr>"

text \<open>The region ids of the pixels a mask marks.\<close>

definition mask_regions :: "nat list list \<Rightarrow> int list list \<Rightarrow> nat list" where
  "mask_regions segs msk =
     map fst (filter (\<lambda>sm. snd sm \<noteq> 0) (zip (concat segs) (concat msk)))"

section \<open>Gradient explainer: grad\_predict\<close>

text \<open>
  A float32 value as far as the normalisation of the heatmap needs it: a finite number,
  not-a-number, or an infinity.
\<close>

datatype fnum = Fin real | NaN | PosInf | NegInf

text \<open>IEEE division of a finite numerator by the maximum of the heatmap.\<close>

fun float_div :: "real \<Rightarrow> fnum \<Rightarrow> fnum" where
  "float_div x (Fin m) =
     (if m = 0 then (if x = 0 then NaN else if 0 < x then PosInf else NegInf)
      else Fin (x / m))"
| "float_div x NaN = NaN"
| "float_div x PosInf = Fin 0"
| "float_div x NegInf = Fin 0"

text \<open>\<open>tf.math.reduce_max\<close> over all entries; minus infinity on an empty tensor.\<close>

definition reduce_max :: "real list list \<Rightarrow> fnum" where
  "reduce_max h = (case concat h of [] \<Rightarrow> NegInf | x # xs \<Rightarrow> Fin (fold max xs x))"

text \<open>
  Line 102: \<open>heatmap = tf.maximum(heatmap, 0) / tf.math.reduce_max(heatmap)\<close>. Both
  operands read the heatmap before the assignment, so the divisor is the maximum of the
  unclamped values.
\<close>

definition normalize_heatmap :: "real list list \<Rightarrow> fnum list list" where
  "normalize_heatmap heatmap =
     (let m = reduce_max heatmap in map (map (\<lambda>v. float_div (max v 0) m)) heatmap)"

text \<open>\<open>tf.reduce_mean(grads, axis=(0, 1, 2))\<close>: one mean per channel.\<close>

definition reduce_mean_012 :: "batch \<Rightarrow> real list" where
  "reduce_mean_012 grads =
     (let cells = concat (concat grads) in
      case cells of
        [] \<Rightarrow> []
      | c0 # _ \<Rightarrow>
          map (\<lambda>c. sum_list (map (\<lambda>cell. cell ! c) cells) / real (length cells))
              [0..<length c0])"

text \<open>\<open>last_conv_layer_output @ pooled_grads[..., tf.newaxis]\<close>, squeezed.\<close>

definition weighted_sum :: "tensor3 \<Rightarrow> real list \<Rightarrow> real list list" where
  "weighted_sum conv pooled =
     map (map (\<lambda>cell. sum_list (map (\<lambda>(a, g). a * g) (zip cell pooled)))) conv"

text \<open>\<open>preds[:, class_idx]\<close> on a TensorFlow tensor.\<close>

definition tf_column :: "prediction \<Rightarrow> int \<Rightarrow> error + real list" where
  "tf_column preds i =
     (if list_all (\<lambda>row. - int (length row) \<le> i \<and> i < int (length row)) preds
      then Inr (map (\<lambda>row. row ! nat (if i < 0 then int (length row) + i else i)) preds)
      else Inl (LibraryError ''InvalidArgumentError'' ''slice index out of bounds''))"

definition img_to_array :: "image \<Rightarrow> tensor3" where
  "img_to_array image_data = map (map (map (\<lambda>p. real (unat p)))) image_data"

definition width :: "'a list list \<Rightarrow> nat" where
  "width t = (case t of [] \<Rightarrow> 0 | r # _ \<Rightarrow> length r)"

text \<open>
  The library calls of \<open>grad_predict\<close>: the VGG16 input normalisation (applied to every
  image of the batch), building the reference network cut at block5\_conv3 (which may
  fail), its forward pass (activations and class scores), the gradient of the selected
  class score with respect to the activations, \<open>cv2.resize\<close> to a (width, height), and
  lines 106 to 109 (conversion to bytes, colour map, blending over the input).
\<close>

record grad_libs =
  preprocess_input :: "tensor3 \<Rightarrow> tensor3"
  vgg16_grad_model :: "error + (batch \<Rightarrow> error + (batch \<times> prediction))"
  tape_gradient :: "batch \<Rightarrow> int \<Rightarrow> error + batch"
  cv2_resize :: "fnum list list \<Rightarrow> nat \<times> nat \<Rightarrow> fnum list list"
  colorize_blend :: "fnum list list \<Rightarrow> tensor3 \<Rightarrow> error + image"

text \<open>
  The heatmap of lines 96 to 105, from the activations of the first batch element and
  the gradients.
\<close>

definition saliency_map :: "grad_libs \<Rightarrow> tensor3 \<Rightarrow> batch \<Rightarrow> nat \<times> nat \<Rightarrow> fnum list list" where
  "saliency_map G conv0 grads dsize =
     (let pooled_grads = reduce_mean_012 grads;
          heatmap = weighted_sum conv0 pooled_grads;
          heatmap = normalize_heatmap heatmap
      in cv2_resize G heatmap dsize)"

text \<open>
  The parameters \<open>model\<close> and \<open>preds\<close> are unused by the script: \<open>preds\<close> is rebound to
  the reference network's output inside the gradient tape.
\<close>

definition grad_predict ::
  "grad_libs \<Rightarrow> world \<Rightarrow> image \<Rightarrow> keras_model \<Rightarrow> prediction \<Rightarrow> int \<Rightarrow> world \<times> (error + image)" where
  "grad_predict G w image_data model preds class_idx =
     (let img_array = img_to_array image_data;
          x0 = preprocess_input G img_array;
          x = expand_dims x0
      in case vgg16_grad_model G of
           Inl e \<Rightarrow> (w, Inl e)
         | Inr grad_model \<Rightarrow>
         (case grad_model x of
           Inl e \<Rightarrow> (w, Inl e)
         | Inr (last_conv_layer_output, preds') \<Rightarrow>
         (case tf_column preds' class_idx of
           Inl e \<Rightarrow> (w, Inl e)
         | Inr class_channel \<Rightarrow>
         (case tape_gradient G x class_idx of
           Inl e \<Rightarrow> (w, Inl e)
         | Inr grads \<Rightarrow>
         (case last_conv_layer_output of
           [] \<Rightarrow> (w, Inl (LibraryError ''InvalidArgumentError'' ''slice index out of bounds''))
         | conv0 # _ \<Rightarrow>
         (let heatmap = saliency_map G conv0 grads (width x0, length x0) in
          case colorize_blend G heatmap x0 of
            Inl e \<Rightarrow> (w, Inl e)
          | Inr superimposed_img \<Rightarrow>
          (case list_get class_names class_idx of
            Inl e \<Rightarrow> (w, Inl e)
          | Inr name \<Rightarrow>
              (st w [StPyplot (GradFigure image_data superimposed_img (''Grad-CAM: '' @ name))],
               Inr superimposed_img))))))))"

section \<open>Pipeline orchestrator: homepage\<close>

text \<open>
  One run of the page: what the user did (the uploaded file, whether the button was
  pressed), what loading the saved model gave, and the libraries.
\<close>

record 'x env =
  uploaded_file :: "(string \<times> byte list) option"
  load_model :: "error + keras_model"
  show_xai :: bool
  audio :: audio_libs
  lime :: "'x lime_lib"
  grad :: grad_libs

text \<open>
  How a run ends: the script reached its end, \<open>st.stop()\<close> halted it, or an exception
  left it.
\<close>

datatype outcome = Finished | Stopped | Raised error

definition homepage :: "'x env \<Rightarrow> world \<Rightarrow> world \<times> outcome" where
  "homepage E w0 =
     (let w1 = st w0 [StWrite ''___'', StSubheader ''Choose a wav file''] in
      case uploaded_file E of
        None \<Rightarrow> (st w1 [StInfo ''Please upload a .wav file''], Finished)
      | Some upload \<Rightarrow>
      (let w2 = st w1 [StWrite ''### Play audio'', StAudio (snd upload)];
           (w3, sound) = save_file w2 upload
       in case load_model E of
            Inl e \<Rightarrow> (st w3 [StError (''Failed to load model: '' @ str_of_error e)], Stopped)
          | Inr model \<Rightarrow>
          (case create_spectrogram (audio E) w3 sound of
            (w4, Inl e) \<Rightarrow> (w4, Raised e)
          | (w4, Inr spec) \<Rightarrow>
          (let w5 = st w4 [StWrite ''### Classification results:''] in
           case predictions spec model of
             Inl e \<Rightarrow> (w5, Raised e)
           | Inr (class_label, prediction) \<Rightarrow>
           (case list_get class_names (int class_label) of
             Inl e \<Rightarrow> (w5, Raised e)
           | Inr name \<Rightarrow>
           (let w6 = st w5 [StWrite (''#### The uploaded audio file is **'' @ name @ ''**'')] in
            if show_xai E then
              (let w7 = st w6 [StWrite ''### XAI Metrics using LIME''] in
               case lime_predict (lime E) w7 spec model of
                 (w8, Inl e) \<Rightarrow> (w8, Raised e)
               | (w8, Inr fig) \<Rightarrow>
               (let w9 = st w8 [StWrite ''### XAI Metrics using Grad-CAM''] in
                case grad_predict (grad E) w9 spec model prediction (int class_label) of
                  (w10, Inl e) \<Rightarrow> (w10, Raised e)
                | (w10, Inr img) \<Rightarrow> (w10, Finished)))
            else (w6, Finished)))))))"

section \<open>Page states named in the statements\<close>

text \<open>
  The page when \<open>homepage\<close> is about to load the model: the headers are written, the
  audio player is shown and the upload is saved.
\<close>

definition uploaded_world :: "world \<Rightarrow> string \<times> byte list \<Rightarrow> world" where
  "uploaded_world w0 upload =
     fst (save_file
            (st (st w0 [StWrite ''___'', StSubheader ''Choose a wav file''])
                [StWrite ''### Play audio'', StAudio (snd upload)])
            upload)"

text \<open>The line that reports the classification, and the page once it is written.\<close>

definition classification_line :: "nat \<Rightarrow> ui_event" where
  "classification_line class_label =
     StWrite (''#### The uploaded audio file is **'' @ class_names ! class_label @ ''**'')"

definition classified_world :: "world \<Rightarrow> nat \<Rightarrow> world" where
  "classified_world w4 class_label =
     st (st w4 [StWrite ''### Classification results:'']) [classification_line class_label]"

section \<open>Concrete inputs\<close>

text \<open>
  Small inputs on which the theorems below are exercised. The library records are toy
  stand-ins with the shape of the real calls; \<open>quiet_libs\<close> follows librosa on a silent
  signal (the decibel conversion clamps the power at 1e-10 before taking the logarithm).
\<close>

definition demo_image :: image where
  "demo_image = [[[255, 0, 51], [10, 20, 30]]]"

definition wide_image :: image where
  "wide_image = [[[0, 0, 7], [0, 1, 7], [0, 2, 7], [0, 3, 7], [0, 4, 7]],
                 [[1, 0, 7], [1, 1, 7], [1, 2, 7], [1, 3, 7], [1, 4, 7]]]"

definition tie_model :: keras_model where
  "tie_model = (\<lambda>b. Inr [[1 / 2, 1 / 2]])"

definition skewed_model :: keras_model where
  "skewed_model = (\<lambda>b. Inr [[1 / 4, 3 / 4]])"

definition blank_world :: world where
  "blank_world = \<lparr>files = Map.empty, ui = [], rcParams = Map.empty\<rparr>"

definition quiet_libs :: audio_libs where
  "quiet_libs =
     \<lparr>librosa_load = (\<lambda>f. case f of
          None \<Rightarrow> Inl (LibraryError ''FileNotFoundError'' ''No such file or directory'')
        | Some bytes \<Rightarrow> Inr (map (\<lambda>b. real_of_int (sint b) / 128) bytes, 16000)),
      melspectrogram = (\<lambda>y sr. Inr [[sum_list (map (\<lambda>s. s * s) y)]]),
      power_to_db = (\<lambda>ms. Inr (map (map (\<lambda>p.
          10 * log 10 (max (1 / 10 ^ 10) p)
          - 10 * log 10 (max (1 / 10 ^ 10) (fold max (concat ms) 0)))) ms)),
      specshow_savefig = (\<lambda>rc log_ms sr. Inr [137, 80, 78, 71]),
      load_img = (\<lambda>f size. case f of
          None \<Rightarrow> Inl (LibraryError ''FileNotFoundError'' ''No such file or directory'')
        | Some png \<Rightarrow> Inr (replicate (fst size) (replicate (snd size) [68, 1, 84])))\<rparr>"

definition silent_world :: world where
  "silent_world =
     \<lparr>files = [''audio_files/silence.wav'' \<mapsto> [0, 0, 0, 0]], ui = [],
      rcParams = Map.empty\<rparr>"




definition ten_regions :: lime_backend where
  "ten_regions =
     \<lparr>segmentation = (\<lambda>img. [[0, 1, 2, 3, 4], [5, 6, 7, 8, 9]]),
      surrogate_fit = (\<lambda>img segs predict_fn hide_color num_samples.
                         Inr (\<lambda>label r. (real r - 3) / 10))\<rparr>"

definition ten_figure :: figure where
  "ten_figure =
     LimeFigure wide_image
       (hide_unselected (img_array1 wide_image) [[0, 1, 2, 3, 4], [5, 6, 7, 8, 9]]
          [9, 8, 7, 0, 6, 1, 5, 2])
       [[1, 1, 1, 0, 0], [1, 1, 1, 1, 1]] ''Predicted class: fake''"

definition label_lime :: "unit lime_lib" where
  "label_lime =
     \<lparr>explain_instance = (\<lambda>img predict_fn hide_color num_samples. Inr ()),
      get_image_and_mask = (\<lambda>E label positive_only num_features hide_rest.
         Inr ([[[real label]]], [[int num_features]]))\<rparr>"

definition failing_lime :: "unit lime_lib" where
  "failing_lime =
     \<lparr>explain_instance = (\<lambda>img predict_fn hide_color num_samples.
         Inl (LibraryError ''ValueError'' ''segmentation failed'')),
      get_image_and_mask = (\<lambda>E label positive_only num_features hide_rest.
         Inr ([], []))\<rparr>"

definition tiny_vgg :: grad_libs where
  "tiny_vgg =
     \<lparr>preprocess_input = (\<lambda>t. map (map (map (\<lambda>v. v - 100))) t),
      vgg16_grad_model = Inr (\<lambda>x. Inr ([[[[1, 2], [3, 4]]]], [[1 / 10, 1 / 5, 7 / 10]])),
      tape_gradient = (\<lambda>x i. Inr [[[[real_of_int i, 0], [0, real_of_int i]]]]),
      cv2_resize = (\<lambda>h dsize. replicate (snd dsize) (replicate (fst dsize)
                      (case concat h of [] \<Rightarrow> NaN | v # _ \<Rightarrow> v))),
      colorize_blend = (\<lambda>h x0. Inr (map (map (\<lambda>v. if v = NaN then [0, 0, 0] else [255, 0, 0])) h))\<rparr>"

definition xai_env :: "unit env" where
  "xai_env =
     \<lparr>uploaded_file = Some (''silence.wav'', [0, 0, 0, 0]),
      load_model = Inr skewed_model,
      show_xai = True,
      audio = quiet_libs,
      lime = failing_lime,
      grad = tiny_vgg\<rparr>"

definition broken_model_env :: "unit env" where
  "broken_model_env =
     xai_env\<lparr>load_model := Inl (LibraryError ''OSError'' ''SavedModel file does not exist'')\<rparr>"

section \<open>Properties of the array helpers\<close>

lemma argmax_from_spec:
  assumes "length pre = i" and "best < i" and "pre ! best = bv"
    and "\<forall>j<i. pre ! j \<le> bv" and "\<forall>j<best. pre ! j < bv"
  shows "argmax_from xs i best bv < i + length xs
       \<and> (\<forall>j < i + length xs. (pre @ xs) ! j \<le> (pre @ xs) ! argmax_from xs i best bv)
       \<and> (\<forall>j < argmax_from xs i best bv. (pre @ xs) ! j < (pre @ xs) ! argmax_from xs i best bv)"
  using assms
proof (induction xs arbitrary: pre i best bv)
  case Nil
  then show ?case by auto
next
  case (Cons x xs)
  let ?pre = "pre @ [x]"
  have len: "length ?pre = Suc i" using Cons.prems by simp
  have app: "(pre @ x # xs) = ?pre @ xs" by simp
  show ?case
  proof (cases "bv < x")
    case True
    have a: "i < Suc i" by simp
    have b: "?pre ! i = x" using Cons.prems(1) by (simp add: nth_append)
    have c: "\<forall>j<Suc i. ?pre ! j \<le> x"
      using Cons.prems True by (auto simp: nth_append less_Suc_eq)
    have d: "\<forall>j<i. ?pre ! j < x"
      using Cons.prems True by (auto simp: nth_append intro: le_less_trans)
    from Cons.IH[OF len a b c d] True show ?thesis
      unfolding app by simp
  next
    case False
    have a: "best < Suc i" using Cons.prems by simp
    have b: "?pre ! best = bv" using Cons.prems by (simp add: nth_append)
    have c: "\<forall>j<Suc i. ?pre ! j \<le> bv"
      using Cons.prems False by (auto simp: nth_append less_Suc_eq)
    have d: "\<forall>j<best. ?pre ! j < bv"
      using Cons.prems by (auto simp: nth_append)
    from Cons.IH[OF len a b c d] False show ?thesis
      unfolding app by simp
  qed
qed

lemma np_argmax_first_max:
  assumes "concat a \<noteq> []"
  shows "\<exists>k. np_argmax a = Inr k \<and> k < length (concat a)
          \<and> (\<forall>j < length (concat a). concat a ! j \<le> concat a ! k)
          \<and> (\<forall>j < k. concat a ! j < concat a ! k)"
proof -
  from assms obtain x xs where xs: "concat a = x # xs" by (cases "concat a") auto
  have "argmax_from xs 1 0 x < 1 + length xs
      \<and> (\<forall>j < 1 + length xs. ([x] @ xs) ! j \<le> ([x] @ xs) ! argmax_from xs 1 0 x)
      \<and> (\<forall>j < argmax_from xs 1 0 x. ([x] @ xs) ! j < ([x] @ xs) ! argmax_from xs 1 0 x)"
    by (rule argmax_from_spec) auto
  then show ?thesis by (simp add: np_argmax_def xs)
qed

lemma byte_real_range: "0 \<le> real (unat (p::byte)) / 255 \<and> real (unat p) / 255 \<le> 1"
proof -
  have "unat p < 2 ^ 8" using unsigned_less[of p] by simp
  then have "unat p \<le> 255" by simp
  then have "real (unat p) \<le> real 255" by (rule iffD2[OF of_nat_le_iff])
  moreover have "0 \<le> real (unat p)" by (rule of_nat_0_le_iff)
  ultimately show ?thesis by simp
qed

lemma img_array1_range:
  assumes "row \<in> set (img_array1 image_data)" and "px \<in> set row" and "v \<in> set px"
  shows "0 \<le> v \<and> v \<le> 1"
proof -
  from assms obtain p :: byte where v: "v = real (unat p) / 255"
    by (auto simp: img_array1_def)
  show ?thesis unfolding v by (rule byte_real_range)
qed

section \<open>The classifier adapter\<close>

text \<open>
  Claim C6. \<open>predictions\<close> hands the model one batch holding the single image with
  every channel byte divided by 255 (so every value lies between 0 and 1, and nothing
  else is done to it), and the result depends on the model only through its answer on
  that batch. When the model answers with one probability vector, the label returned is
  an index of its maximum, and every earlier index holds a strictly smaller value: ties
  go to the lowest class index.
\<close>

theorem predictions_normalises_batches_argmax:
  assumes "model [img_array1 image_data] = Inr [probs]" and "probs \<noteq> []"
  shows "(\<exists>k. predictions image_data model = Inr (k, [probs]) \<and> k < length probs
            \<and> (\<forall>j < length probs. probs ! j \<le> probs ! k)
            \<and> (\<forall>j < k. probs ! j < probs ! k))
       \<and> (\<forall>row \<in> set (img_array1 image_data). \<forall>px \<in> set row. \<forall>v \<in> set px. 0 \<le> v \<and> v \<le> 1)
       \<and> (\<forall>i < length image_data. \<forall>j < length (image_data ! i). \<forall>c < length (image_data ! i ! j).
             img_array1 image_data ! i ! j ! c = real (unat (image_data ! i ! j ! c)) / 255)
       \<and> (\<forall>model'. model' [img_array1 image_data] = model [img_array1 image_data]
             \<longrightarrow> predictions image_data model' = predictions image_data model)"
proof -
  have "concat [probs] \<noteq> []" using assms(2) by simp
  from np_argmax_first_max[OF this] obtain k where k: "np_argmax [probs] = Inr k"
    "k < length probs" "\<forall>j < length probs. probs ! j \<le> probs ! k" "\<forall>j < k. probs ! j < probs ! k"
    by auto
  have p: "predictions image_data model = Inr (k, [probs])"
    using assms(1) k(1) by (simp add: predictions_def expand_dims_def)
  have r: "\<forall>row \<in> set (img_array1 image_data). \<forall>px \<in> set row. \<forall>v \<in> set px. 0 \<le> v \<and> v \<le> 1"
    using img_array1_range by blast
  have ix: "\<forall>i < length image_data. \<forall>j < length (image_data ! i). \<forall>c < length (image_data ! i ! j).
             img_array1 image_data ! i ! j ! c = real (unat (image_data ! i ! j ! c)) / 255"
    by (simp add: img_array1_def)
  have dep: "\<forall>model'. model' [img_array1 image_data] = model [img_array1 image_data]
             \<longrightarrow> predictions image_data model' = predictions image_data model"
    by (simp add: predictions_def expand_dims_def)
  from p k r ix dep show ?thesis by blast
qed

theorem predictions_normalises_batches_argmax_witness:
  "tie_model [img_array1 demo_image] = Inr [[1 / 2, 1 / 2]]
   \<and> predictions demo_image tie_model = Inr (0, [[1 / 2, 1 / 2]])
   \<and> img_array1 demo_image = [[[1, 0, 1 / 5], [2 / 51, 4 / 51, 2 / 17]]]"
proof -
  have h: "tie_model [img_array1 demo_image] = Inr [[1 / 2, 1 / 2]]"
    by (simp add: tie_model_def)
  have ne: "[1 / 2, 1 / (2::real)] \<noteq> []" by simp
  note t = predictions_normalises_batches_argmax
         [where model = tie_model and image_data = demo_image and probs = "[1 / 2, 1 / 2]", OF h ne]
  from conjunct1[OF t]
  obtain k where k: "predictions demo_image tie_model = Inr (k, [[1 / 2, 1 / 2]])"
    "k < length [1 / 2, 1 / (2::real)]" "\<forall>j < k. [1 / 2, 1 / (2::real)] ! j < [1 / 2, 1 / 2] ! k"
    by blast
  have "k = 0"
  proof (rule ccontr)
    assume "k \<noteq> 0"
    with k(2) have k1: "k = 1" by simp
    from k(3) have "0 < k \<longrightarrow> [1 / 2, 1 / (2::real)] ! 0 < [1 / 2, 1 / 2] ! k" by blast
    with k1 show False by simp
  qed
  moreover have "img_array1 demo_image = [[[1, 0, 1 / 5], [2 / 51, 4 / 51, 2 / 17]]]"
    by (simp add: img_array1_def demo_image_def)
  ultimately show ?thesis using k(1) h by simp
qed



section \<open>The perturbation explainer\<close>

lemma lime_predict_Inr:
  assumes "lime_predict L w image_data model = (w', Inr fig)"
  shows "\<exists>E class_label name temp msk.
           explain_instance L (img_array1 image_data) model 0 1000 = Inr E
         \<and> lime_class_label image_data model = Inr class_label
         \<and> get_image_and_mask L E class_label False 8 True = Inr (temp, msk)
         \<and> list_get class_names (int class_label) = Inr name
         \<and> fig = LimeFigure image_data temp msk (''Predicted class: '' @ name)
         \<and> w' = st w [StPyplot fig]"
  using assms
  by (auto simp: lime_predict_def Let_def split: sum.splits prod.splits)

lemma list_get_class_names:
  assumes "list_get class_names (int k) = Inr name"
  shows "k < 2 \<and> name = class_names ! k"
  using assms by (auto simp: list_get_def class_names_def split: if_splits)

text \<open>
  Claim C10. The class that \<open>lime_predict\<close> recomputes from the model equals the label
  of \<open>predictions\<close> on the same image and model (and fails the same way when that
  fails); so whenever both succeed, the mask and the image of the figure are what
  \<open>get_image_and_mask\<close> returned for the reported label, and the title names that class.
\<close>

theorem lime_predict_explains_reported_class:
  "lime_class_label image_data model = map_sum id fst (predictions image_data model)
   \<and> (\<forall>class_label prediction w w' fig.
         predictions image_data model = Inr (class_label, prediction)
         \<and> lime_predict L w image_data model = (w', Inr fig)
         \<longrightarrow> (\<exists>E. explain_instance L (img_array1 image_data) model 0 1000 = Inr E
                  \<and> get_image_and_mask L E class_label False 8 True
                      = Inr (lime_temp fig, lime_mask fig))
             \<and> class_label < 2
             \<and> lime_title fig = ''Predicted class: '' @ class_names ! class_label)"
proof -
  have a: "lime_class_label image_data model = map_sum id fst (predictions image_data model)"
    by (simp add: lime_class_label_def predictions_def Let_def split: sum.splits)
  have b: "(\<exists>E. explain_instance L (img_array1 image_data) model 0 1000 = Inr E
                  \<and> get_image_and_mask L E class_label False 8 True
                      = Inr (lime_temp fig, lime_mask fig))
             \<and> class_label < 2
             \<and> lime_title fig = ''Predicted class: '' @ class_names ! class_label"
    if p: "predictions image_data model = Inr (class_label, prediction)"
      and l: "lime_predict L w image_data model = (w', Inr fig)"
    for class_label prediction w w' fig
  proof -
    from a p have c: "lime_class_label image_data model = Inr class_label" by simp
    from lime_predict_Inr[OF l] c obtain E name temp msk where
      e: "explain_instance L (img_array1 image_data) model 0 1000 = Inr E"
      and g: "get_image_and_mask L E class_label False 8 True = Inr (temp, msk)"
      and n: "list_get class_names (int class_label) = Inr name"
      and f: "fig = LimeFigure image_data temp msk (''Predicted class: '' @ name)"
      by auto
    from list_get_class_names[OF n] e g f show ?thesis by auto
  qed
  from a b show ?thesis by blast
qed

theorem lime_predict_explains_reported_class_witness:
  "predictions wide_image skewed_model = Inr (1, [[1 / 4, 3 / 4]])
   \<and> lime_class_label wide_image skewed_model = Inr 1
   \<and> lime_predict label_lime blank_world wide_image skewed_model
       = (st blank_world [StPyplot (LimeFigure wide_image [[[1]]] [[8]] ''Predicted class: fake'')],
          Inr (LimeFigure wide_image [[[1]]] [[8]] ''Predicted class: fake''))"
proof -
  have p: "predictions wide_image skewed_model = Inr (1, [[1 / 4, 3 / 4]])"
    by (simp add: predictions_def skewed_model_def np_argmax_def)
  note t = lime_predict_explains_reported_class[of wide_image skewed_model label_lime]
  from conjunct1[OF t] p have c: "lime_class_label wide_image skewed_model = Inr 1" by simp
  then have "lime_predict label_lime blank_world wide_image skewed_model
       = (st blank_world [StPyplot (LimeFigure wide_image [[[1]]] [[8]] ''Predicted class: fake'')],
          Inr (LimeFigure wide_image [[[1]]] [[8]] ''Predicted class: fake''))"
    by (simp add: lime_predict_def label_lime_def list_get_def class_names_def Let_def)
  with p c show ?thesis by simp
qed

section \<open>The explanation mask of the modelled lime package\<close>

lemma mask_regions_map:
  "mask_regions segs (map (map f) segs) = filter (\<lambda>s. f s \<noteq> 0) (concat segs)"
proof -
  have c: "concat (map (map f) segs) = map f (concat segs)" by (simp add: map_concat)
  have z: "zip xs (map f xs) = map (\<lambda>x. (x, f x)) xs" for xs
    by (induction xs) auto
  show ?thesis
    unfolding mask_regions_def c z by (simp add: filter_map comp_def)
qed

lemma spec_get_image_and_mask_mask:
  "snd (spec_get_image_and_mask E label positive_only num_features hide_rest)
     = map (map (\<lambda>s. if s \<in> set (selected_regions E label positive_only num_features)
                          then 1 else 0)) (segments E)"
  by (simp add: spec_get_image_and_mask_def Let_def)

lemma length_selected_regions:
  "length (selected_regions E label positive_only num_features) \<le> num_features"
  by (simp add: selected_regions_def Let_def)

lemma selected_regions_subset:
  "set (selected_regions E label positive_only num_features) \<subseteq> fst ` set (local_exp E label)"
proof
  fix r
  assume "r \<in> set (selected_regions E label positive_only num_features)"
  then obtain rw where rw: "r = fst rw"
    and t: "rw \<in> set (take num_features
              (if positive_only then filter (\<lambda>rw. 0 < snd rw) (local_exp E label)
               else local_exp E label))"
    by (auto simp: selected_regions_def Let_def)
  from in_set_takeD[OF t] have "rw \<in> set (local_exp E label)"
    by (auto split: if_splits)
  with rw show "r \<in> fst ` set (local_exp E label)" by blast
qed

lemma spec_explain_instance_Inr:
  assumes "spec_explain_instance B img predict_fn hide_color num_samples = Inr E"
  shows "segments E = segmentation B img
       \<and> fst ` set (local_exp E label) = set (region_ids (segments E))"
proof -
  from assms obtain coef where
    E: "E = \<lparr>exp_image = img, segments = segmentation B img,
              local_exp = (\<lambda>label. rank_regions
                 (map (\<lambda>r. (r, coef label r)) (region_ids (segmentation B img))))\<rparr>"
    by (auto simp: spec_explain_instance_def Let_def split: if_splits sum.splits)
  have "fst ` set (rank_regions (map (\<lambda>r. (r, coef label r)) rs)) = set rs" for rs
    by (force simp: rank_regions_def)
  then show ?thesis by (simp add: E)
qed

lemma lime_ten:
  "lime_predict (spec_lime ten_regions) blank_world wide_image skewed_model =
     (st blank_world [StPyplot ten_figure], Inr ten_figure)"
  by (simp add: lime_predict_def spec_lime_def spec_explain_instance_def ten_regions_def
      region_ids_def lime_class_label_def skewed_model_def np_argmax_def expand_dims_def
      spec_get_image_and_mask_def selected_regions_def rank_regions_def list_get_def
      class_names_def ten_figure_def Let_def)

text \<open>
  Claim C7. Whenever \<open>lime_predict\<close>, over the lime package as the specification
  describes it, produces its figure, the regions the explanation selects for the explained
  class are regions of the superpixel segmentation of the same image and are at most 8
  (the \<open>num_features\<close> the script passes); the mask of the figure marks exactly the
  pixels of the selected regions, so the regions that appear in the mask are the
  selected ones.
\<close>

theorem lime_mask_subset_top_k:
  assumes "lime_predict (spec_lime B) w image_data model = (w', Inr fig)"
  shows "\<exists>E class_label.
           spec_explain_instance B (img_array1 image_data) model 0 1000 = Inr E
         \<and> lime_class_label image_data model = Inr class_label
         \<and> segments E = segmentation B (img_array1 image_data)
         \<and> set (selected_regions E class_label False 8) \<subseteq> set (region_ids (segments E))
         \<and> length (selected_regions E class_label False 8) \<le> 8
         \<and> lime_mask fig
             = map (map (\<lambda>s. if s \<in> set (selected_regions E class_label False 8) then 1 else 0))
                   (segments E)
         \<and> set (mask_regions (segments E) (lime_mask fig))
             = set (selected_regions E class_label False 8)"
proof -
  from lime_predict_Inr[OF assms] obtain E class_label name temp msk where
    e: "spec_explain_instance B (img_array1 image_data) model 0 1000 = Inr E"
    and c: "lime_class_label image_data model = Inr class_label"
    and g: "spec_get_image_and_mask E class_label False 8 True = (temp, msk)"
    and f: "fig = LimeFigure image_data temp msk (''Predicted class: '' @ name)"
    by (auto simp: spec_lime_def)
  let ?sel = "selected_regions E class_label False 8"
  note x = spec_explain_instance_Inr[OF e, of class_label]
  have sub: "set ?sel \<subseteq> set (region_ids (segments E))"
    using selected_regions_subset[of E class_label False 8] x by simp
  have len: "length ?sel \<le> 8" by (rule length_selected_regions)
  have m: "lime_mask fig = map (map (\<lambda>s. if s \<in> set ?sel then 1 else 0)) (segments E)"
    using spec_get_image_and_mask_mask[of E class_label False 8 True] g f by simp
  have "set (mask_regions (segments E) (lime_mask fig)) = set (concat (segments E)) \<inter> set ?sel"
    unfolding m mask_regions_map by auto
  with sub have eq: "set (mask_regions (segments E) (lime_mask fig)) = set ?sel"
    by (auto simp: region_ids_def)
  from e c x sub len m eq show ?thesis by blast
qed

theorem lime_mask_subset_top_k_witness:
  "lime_predict (spec_lime ten_regions) blank_world wide_image skewed_model =
     (st blank_world [StPyplot ten_figure], Inr ten_figure)
   \<and> region_ids (segmentation ten_regions (img_array1 wide_image))
       = [0, 1, 2, 3, 4, 5, 6, 7, 8, 9]
   \<and> mask_regions (segmentation ten_regions (img_array1 wide_image)) (lime_mask ten_figure)
       = [0, 1, 2, 5, 6, 7, 8, 9]
   \<and> card (set (mask_regions (segmentation ten_regions (img_array1 wide_image))
                  (lime_mask ten_figure))) \<le> 8"
proof -
  have r: "region_ids (segmentation ten_regions (img_array1 wide_image))
       = [0, 1, 2, 3, 4, 5, 6, 7, 8, 9]"
    by (simp add: region_ids_def ten_regions_def)
  have m: "mask_regions (segmentation ten_regions (img_array1 wide_image)) (lime_mask ten_figure)
       = [0, 1, 2, 5, 6, 7, 8, 9]"
    by (simp add: mask_regions_def ten_regions_def ten_figure_def)
  from lime_mask_subset_top_k[OF lime_ten] obtain E class_label where
    s: "segments E = segmentation ten_regions (img_array1 wide_image)"
    and l: "length (selected_regions E class_label False 8) \<le> 8"
    and q: "set (mask_regions (segments E) (lime_mask ten_figure))
             = set (selected_regions E class_label False 8)"
    by blast
  have "card (set (selected_regions E class_label False 8)) \<le> 8"
    using card_length[of "selected_regions E class_label False 8"] l by simp
  with q s have "card (set (mask_regions (segmentation ten_regions (img_array1 wide_image))
                  (lime_mask ten_figure))) \<le> 8" by simp
  with lime_ten r m show ?thesis by simp
qed

section \<open>The feature extractor\<close>

lemma path_silence: "path_join ''audio_files'' ''silence.wav'' = ''audio_files/silence.wav''"
  by (simp add: path_join_def)




text \<open>
  Claim C2, as stated: an empty or silent waveform or a non-positive sampling rate makes
  \<open>create_spectrogram\<close> fail with FeatureExtractionError. It does not: with libraries
  that accept a silent signal, as librosa does, an all-zero waveform yields an image.
\<close>

theorem create_spectrogram_silent_counterexample:
  "librosa_load quiet_libs (files silent_world (path_join ''audio_files'' ''silence.wav''))
     = Inr ([0, 0, 0, 0], 16000)
   \<and> degenerate_audio [0, 0, 0, 0] 16000
   \<and> snd (create_spectrogram quiet_libs silent_world ''silence.wav'')
     = Inr (replicate 224 (replicate 224 [68, 1, 84]))"
  by (simp add: create_spectrogram_def path_silence quiet_libs_def silent_world_def
      degenerate_audio_def st_def)

text \<open>
  Claim C2, amended. \<open>create_spectrogram\<close> looks at neither the waveform nor the
  sampling rate: whenever the five library calls succeed it returns the image that
  \<open>load_img\<close> gives for the rendered file, and whenever it fails the error is the one
  a library call raised, unchanged. It has no error kind of its own.
\<close>

theorem create_spectrogram_no_validation:
  "(\<forall>y sr ms log_ms png image_data.
      librosa_load L (files w (path_join ''audio_files'' sound)) = Inr (y, sr)
      \<and> melspectrogram L y sr = Inr ms
      \<and> power_to_db L ms = Inr log_ms
      \<and> specshow_savefig L (rcParams w) log_ms sr = Inr png
      \<and> load_img L (Some png) (224, 224) = Inr image_data
      \<longrightarrow> snd (create_spectrogram L w sound) = Inr image_data)
   \<and> (\<forall>e. snd (create_spectrogram L w sound) = Inl e \<longrightarrow>
        librosa_load L (files w (path_join ''audio_files'' sound)) = Inl e
        \<or> (\<exists>y sr. librosa_load L (files w (path_join ''audio_files'' sound)) = Inr (y, sr)
            \<and> (melspectrogram L y sr = Inl e
               \<or> (\<exists>ms. melspectrogram L y sr = Inr ms
                   \<and> (power_to_db L ms = Inl e
                      \<or> (\<exists>log_ms. power_to_db L ms = Inr log_ms
                          \<and> (specshow_savefig L (rcParams w) log_ms sr = Inl e
                             \<or> (\<exists>png. specshow_savefig L (rcParams w) log_ms sr = Inr png
                                 \<and> load_img L (Some png) (224, 224) = Inl e))))))))"
proof -
  have a: "snd (create_spectrogram L w sound) = Inr image_data"
    if "librosa_load L (files w (path_join ''audio_files'' sound)) = Inr (y, sr)"
      "melspectrogram L y sr = Inr ms" "power_to_db L ms = Inr log_ms"
      "specshow_savefig L (rcParams w) log_ms sr = Inr png" "load_img L (Some png) (224, 224) = Inr image_data"
    for y sr ms log_ms png image_data
    using that by (simp add: create_spectrogram_def Let_def)
  have b: "librosa_load L (files w (path_join ''audio_files'' sound)) = Inl e
        \<or> (\<exists>y sr. librosa_load L (files w (path_join ''audio_files'' sound)) = Inr (y, sr)
            \<and> (melspectrogram L y sr = Inl e
               \<or> (\<exists>ms. melspectrogram L y sr = Inr ms
                   \<and> (power_to_db L ms = Inl e
                      \<or> (\<exists>log_ms. power_to_db L ms = Inr log_ms
                          \<and> (specshow_savefig L (rcParams w) log_ms sr = Inl e
                             \<or> (\<exists>png. specshow_savefig L (rcParams w) log_ms sr = Inr png
                                 \<and> load_img L (Some png) (224, 224) = Inl e)))))))"
    if "snd (create_spectrogram L w sound) = Inl e" for e
    using that
    by (auto simp: create_spectrogram_def Let_def split: sum.splits prod.splits)
  from a b show ?thesis by blast
qed

theorem create_spectrogram_no_validation_witness:
  "degenerate_audio [0, 0, 0, 0] 16000
   \<and> snd (create_spectrogram quiet_libs silent_world ''silence.wav'')
       = Inr (replicate 224 (replicate 224 [68, 1, 84]))
   \<and> snd (create_spectrogram quiet_libs blank_world ''silence.wav'')
       = Inl (LibraryError ''FileNotFoundError'' ''No such file or directory'')
   \<and> librosa_load quiet_libs (files blank_world (path_join ''audio_files'' ''silence.wav''))
       = Inl (LibraryError ''FileNotFoundError'' ''No such file or directory'')"
proof -
  note t = create_spectrogram_no_validation[of quiet_libs silent_world "''silence.wav''"]
  have l: "librosa_load quiet_libs (files silent_world (path_join ''audio_files'' ''silence.wav''))
     = Inr ([0, 0, 0, 0], 16000)"
    by (simp add: path_silence quiet_libs_def silent_world_def)
  have m: "melspectrogram quiet_libs [0, 0, 0, 0] 16000 = Inr [[0]]"
    by (simp add: quiet_libs_def)
  have p: "power_to_db quiet_libs [[0]] = Inr [[0]]"
    by (simp add: quiet_libs_def)
  have s: "specshow_savefig quiet_libs (rcParams silent_world) [[0]] 16000
     = Inr [137, 80, 78, 71]"
    by (simp add: quiet_libs_def)
  have i: "load_img quiet_libs (Some [137, 80, 78, 71]) (224, 224)
     = Inr (replicate 224 (replicate 224 [68, 1, 84]))"
    by (simp add: quiet_libs_def)
  from conjunct1[OF t] l m p s i
  have ok: "snd (create_spectrogram quiet_libs silent_world ''silence.wav'')
       = Inr (replicate 224 (replicate 224 [68, 1, 84]))" by blast
  have d: "degenerate_audio [0, 0, 0, 0] 16000" by (simp add: degenerate_audio_def)
  have f: "librosa_load quiet_libs (files blank_world (path_join ''audio_files'' ''silence.wav''))
       = Inl (LibraryError ''FileNotFoundError'' ''No such file or directory'')"
    by (simp add: quiet_libs_def blank_world_def)
  then have g: "snd (create_spectrogram quiet_libs blank_world ''silence.wav'')
       = Inl (LibraryError ''FileNotFoundError'' ''No such file or directory'')"
    by (simp add: create_spectrogram_def)
  from ok d f g show ?thesis by simp
qed

section \<open>The gradient explainer\<close>

text \<open>
  Claim C4. With a class index of 2 or more \<open>grad_predict\<close> never returns an image
  and never draws its figure: it ends in an error and leaves the page as it was. When
  every library call succeeds (the index still selects a class of the reference
  network), the error is the IndexError of \<open>class_names[class_idx]\<close>.
\<close>

theorem grad_predict_rejects_out_of_vocabulary:
  assumes "2 \<le> class_idx"
  shows "(\<exists>e. grad_predict G w image_data model preds class_idx = (w, Inl e))
       \<and> (\<forall>grad_model conv0 rest preds' class_channel grads img.
             vgg16_grad_model G = Inr grad_model
             \<and> grad_model [preprocess_input G (img_to_array image_data)] = Inr (conv0 # rest, preds')
             \<and> tf_column preds' class_idx = Inr class_channel
             \<and> tape_gradient G [preprocess_input G (img_to_array image_data)] class_idx = Inr grads
             \<and> colorize_blend G
                  (saliency_map G conv0 grads
                     (width (preprocess_input G (img_to_array image_data)),
                      length (preprocess_input G (img_to_array image_data))))
                  (preprocess_input G (img_to_array image_data)) = Inr img
             \<longrightarrow> grad_predict G w image_data model preds class_idx = (w, Inl IndexError))"
proof -
  have n: "list_get class_names class_idx = Inl IndexError"
    using assms by (simp add: list_get_def class_names_def)
  have a: "\<exists>e. grad_predict G w image_data model preds class_idx = (w, Inl e)"
    by (simp add: grad_predict_def Let_def expand_dims_def n split: sum.splits prod.splits list.splits)
  have b: "grad_predict G w image_data model preds class_idx = (w, Inl IndexError)"
    if "vgg16_grad_model G = Inr grad_model"
      "grad_model [preprocess_input G (img_to_array image_data)] = Inr (conv0 # rest, preds')"
      "tf_column preds' class_idx = Inr class_channel"
      "tape_gradient G [preprocess_input G (img_to_array image_data)] class_idx = Inr grads"
      "colorize_blend G
                  (saliency_map G conv0 grads
                     (width (preprocess_input G (img_to_array image_data)),
                      length (preprocess_input G (img_to_array image_data))))
                  (preprocess_input G (img_to_array image_data)) = Inr img"
    for grad_model conv0 rest preds' class_channel grads img
    using that by (simp add: grad_predict_def Let_def expand_dims_def n)
  from a b show ?thesis by blast
qed

theorem grad_predict_rejects_out_of_vocabulary_witness:
  "(2::int) \<le> 2
   \<and> grad_predict tiny_vgg blank_world demo_image skewed_model [[1 / 4, 3 / 4]] 2
       = (blank_world, Inl IndexError)"
proof -
  have h: "(2::int) \<le> 2" by simp
  note t = grad_predict_rejects_out_of_vocabulary
             [OF h, of tiny_vgg blank_world demo_image skewed_model "[[1 / 4, 3 / 4]]"]
  from conjunct1[OF t] obtain e where
    e: "grad_predict tiny_vgg blank_world demo_image skewed_model [[1 / 4, 3 / 4]] 2
          = (blank_world, Inl e)" by blast
  have "grad_predict tiny_vgg blank_world demo_image skewed_model [[1 / 4, 3 / 4]] 2
          = (blank_world, Inl IndexError)"
    by (simp add: grad_predict_def tiny_vgg_def tf_column_def list_get_def class_names_def
        expand_dims_def Let_def)
  with e h show ?thesis by simp
qed

lemma fold_max_ge: "v \<in> set (x # xs) \<Longrightarrow> v \<le> fold max xs (x::real)"
proof -
  assume v: "v \<in> set (x # xs)"
  have "Max (set (x # xs)) = fold max xs x" by (rule Max.set_eq_fold)
  moreover from v have "v \<le> Max (set (x # xs))" by (intro Max_ge) auto
  ultimately show ?thesis by simp
qed

text \<open>
  When the maximum of the heatmap is positive, every normalised value is a number
  between 0 and 1.
\<close>

lemma normalize_heatmap_positive_max:
  assumes "reduce_max heatmap = Fin m" and "0 < m"
    and "row \<in> set (normalize_heatmap heatmap)" and "u \<in> set row"
  shows "\<exists>r. u = Fin r \<and> 0 \<le> r \<and> r \<le> 1"
proof -
  from assms(3,4) obtain hr v where hr: "hr \<in> set heatmap" and v: "v \<in> set hr"
    and u: "u = float_div (max v 0) (Fin m)"
    by (auto simp: normalize_heatmap_def Let_def assms(1) simp del: float_div.simps)
  from hr v have vc: "v \<in> set (concat heatmap)" by auto
  then obtain x xs where c: "concat heatmap = x # xs" by (cases "concat heatmap") auto
  with assms(1) have m: "m = fold max xs x" by (simp add: reduce_max_def)
  from vc c have "v \<le> m" unfolding m by (intro fold_max_ge) simp
  with assms(2) have "max v 0 \<le> m" by simp
  with assms(2) have "0 \<le> max v 0 / m \<and> max v 0 / m \<le> 1" by simp
  with assms(2) u show ?thesis by simp
qed

text \<open>
  Claim C1 fails on the code: the divisor of line 102 is not guarded. When the
  gradients vanish, the heatmap is zero everywhere, its maximum is zero, and every value
  handed to \<open>cv2.resize\<close> is 0/0, not a number in [0,1].
\<close>

theorem saliency_map_zero_gradient_is_nan:
  "saliency_map G [[[1, 2], [3, 4]]] [[[[0, 0], [0, 0]]]] dsize = cv2_resize G [[NaN, NaN]] dsize"
  by (simp add: saliency_map_def reduce_mean_012_def weighted_sum_def normalize_heatmap_def
      reduce_max_def Let_def)

section \<open>The orchestrator\<close>

lemma lime_predict_ui:
  assumes "lime_predict B w image_data model = (w', r)"
  shows "\<exists>evs. ui w' = ui w @ evs"
  using assms
  by (auto simp: lime_predict_def Let_def st_def split: sum.splits prod.splits)

lemma grad_predict_ui:
  assumes "grad_predict G w image_data model preds class_idx = (w', r)"
  shows "\<exists>evs. ui w' = ui w @ evs"
  using assms
  by (auto simp: grad_predict_def Let_def st_def split: sum.splits prod.splits list.splits)

lemma class_name_lookup:
  "list_get class_names (int k) = (if k < 2 then Inr (class_names ! k) else Inl IndexError)"
  by (simp add: list_get_def class_names_def)

lemma homepage_unfold:
  assumes "uploaded_file E = Some upload"
  shows "homepage E w0 =
    (case load_model E of
            Inl e \<Rightarrow> (st (uploaded_world w0 upload) [StError (''Failed to load model: '' @ str_of_error e)], Stopped)
          | Inr model \<Rightarrow>
          (case create_spectrogram (audio E) (uploaded_world w0 upload) (fst upload) of
            (w4, Inl e) \<Rightarrow> (w4, Raised e)
          | (w4, Inr spec) \<Rightarrow>
           (case predictions spec model of
             Inl e \<Rightarrow> (st w4 [StWrite ''### Classification results:''], Raised e)
           | Inr (class_label, prediction) \<Rightarrow>
            if class_label < 2 then
             (if show_xai E then
               (case lime_predict (lime E) (st (classified_world w4 class_label) [StWrite ''### XAI Metrics using LIME'']) spec model of
                 (w8, Inl e) \<Rightarrow> (w8, Raised e)
               | (w8, Inr fig) \<Rightarrow>
                (case grad_predict (grad E) (st w8 [StWrite ''### XAI Metrics using Grad-CAM'']) spec model prediction (int class_label) of
                  (w10, Inl e) \<Rightarrow> (w10, Raised e)
                | (w10, Inr img) \<Rightarrow> (w10, Finished)))
              else (classified_world w4 class_label, Finished))
            else (st w4 [StWrite ''### Classification results:''], Raised IndexError))))"
  using assms
  by (simp add: homepage_def Let_def uploaded_world_def save_file_def classified_world_def
      classification_line_def class_name_lookup split: sum.splits prod.splits)

lemma classification_line_kept:
  assumes "ui w' = ui (st (classified_world w4 k) evs) @ tl_evs"
  shows "classification_line k \<in> set (ui w')"
  using assms by (simp add: classified_world_def st_def)

lemma upload_xai: "uploaded_file xai_env = Some (''silence.wav'', [0, 0, 0, 0])"
  by (simp add: xai_env_def)

lemma spectrogram_xai:
  "snd (create_spectrogram quiet_libs
          (uploaded_world blank_world (''silence.wav'', [0, 0, 0, 0])) ''silence.wav'')
   = Inr (replicate 224 (replicate 224 [68, 1, 84]))"
  by (simp add: create_spectrogram_def path_silence quiet_libs_def uploaded_world_def
      save_file_def st_def blank_world_def)

lemma failing_lime_fails:
  "lime_predict failing_lime w image_data model
     = (w, Inl (LibraryError ''ValueError'' ''segmentation failed''))"
  by (simp add: lime_predict_def failing_lime_def)

text \<open>
  Claim C5, as stated: the first component failure is surfaced with its kind unchanged.
  A failure to load the model is not: \<open>homepage\<close> catches it, writes a message built from
  the exception's text, and stops; the run does not end in that exception.
\<close>

theorem homepage_load_failure_counterexample:
  "load_model broken_model_env = Inl (LibraryError ''OSError'' ''SavedModel file does not exist'')
   \<and> snd (homepage broken_model_env blank_world) = Stopped
   \<and> last (ui (fst (homepage broken_model_env blank_world)))
       = StError ''Failed to load model: SavedModel file does not exist''"
proof -
  have u: "uploaded_file broken_model_env = Some (''silence.wav'', [0, 0, 0, 0])"
    by (simp add: broken_model_env_def xai_env_def)
  have l: "load_model broken_model_env
         = Inl (LibraryError ''OSError'' ''SavedModel file does not exist'')"
    by (simp add: broken_model_env_def)
  show ?thesis
    by (simp add: homepage_unfold[OF u] l st_def)
qed

text \<open>
  Claim C5, amended. After an upload, \<open>homepage\<close> stops at the first failure. A failure
  to load the model becomes the message "Failed to load model: ..." followed by a stop.
  A failure of \<open>create_spectrogram\<close>, \<open>predictions\<close>, \<open>lime_predict\<close> or
  \<open>grad_predict\<close> ends the run in that same error, with nothing later executed; and
  when an explainer fails, the classification line written before it is still on the
  page.
\<close>

theorem homepage_short_circuit:
  assumes "uploaded_file E = Some upload"
  shows
   "(\<forall>e. load_model E = Inl e \<longrightarrow>
        homepage E w0 =
          (st (uploaded_world w0 upload) [StError (''Failed to load model: '' @ str_of_error e)],
           Stopped))
    \<and> (\<forall>model w4 e.
          load_model E = Inr model
          \<and> create_spectrogram (audio E) (uploaded_world w0 upload) (fst upload) = (w4, Inl e)
          \<longrightarrow> homepage E w0 = (w4, Raised e))
    \<and> (\<forall>model w4 spec e.
          load_model E = Inr model
          \<and> create_spectrogram (audio E) (uploaded_world w0 upload) (fst upload) = (w4, Inr spec)
          \<and> predictions spec model = Inl e
          \<longrightarrow> homepage E w0 = (st w4 [StWrite ''### Classification results:''], Raised e))
    \<and> (\<forall>model w4 spec class_label prediction w7 w8 e.
          load_model E = Inr model
          \<and> create_spectrogram (audio E) (uploaded_world w0 upload) (fst upload) = (w4, Inr spec)
          \<and> predictions spec model = Inr (class_label, prediction)
          \<and> class_label < 2 \<and> show_xai E
          \<and> w7 = st (classified_world w4 class_label) [StWrite ''### XAI Metrics using LIME'']
          \<and> lime_predict (lime E) w7 spec model = (w8, Inl e)
          \<longrightarrow> homepage E w0 = (w8, Raised e) \<and> classification_line class_label \<in> set (ui w8))
    \<and> (\<forall>model w4 spec class_label prediction w7 w8 fig w10 e.
          load_model E = Inr model
          \<and> create_spectrogram (audio E) (uploaded_world w0 upload) (fst upload) = (w4, Inr spec)
          \<and> predictions spec model = Inr (class_label, prediction)
          \<and> class_label < 2 \<and> show_xai E
          \<and> w7 = st (classified_world w4 class_label) [StWrite ''### XAI Metrics using LIME'']
          \<and> lime_predict (lime E) w7 spec model = (w8, Inr fig)
          \<and> grad_predict (grad E) (st w8 [StWrite ''### XAI Metrics using Grad-CAM'']) spec model
               prediction (int class_label) = (w10, Inl e)
          \<longrightarrow> homepage E w0 = (w10, Raised e) \<and> classification_line class_label \<in> set (ui w10))"
proof -
  note u = homepage_unfold[OF assms, of w0]
  have a: "homepage E w0 =
          (st (uploaded_world w0 upload) [StError (''Failed to load model: '' @ str_of_error e)],
           Stopped)" if "load_model E = Inl e" for e
    using that by (simp add: u)
  have b: "homepage E w0 = (w4, Raised e)"
    if "load_model E = Inr model"
      "create_spectrogram (audio E) (uploaded_world w0 upload) (fst upload) = (w4, Inl e)"
    for model w4 e
    using that by (simp add: u)
  have c: "homepage E w0 = (st w4 [StWrite ''### Classification results:''], Raised e)"
    if "load_model E = Inr model"
      "create_spectrogram (audio E) (uploaded_world w0 upload) (fst upload) = (w4, Inr spec)"
      "predictions spec model = Inl e"
    for model w4 spec e
    using that by (simp add: u)
  have d: "homepage E w0 = (w8, Raised e) \<and> classification_line class_label \<in> set (ui w8)"
    if "load_model E = Inr model"
      "create_spectrogram (audio E) (uploaded_world w0 upload) (fst upload) = (w4, Inr spec)"
      "predictions spec model = Inr (class_label, prediction)"
      "class_label < 2" "show_xai E"
      "w7 = st (classified_world w4 class_label) [StWrite ''### XAI Metrics using LIME'']"
      "lime_predict (lime E) w7 spec model = (w8, Inl e)"
    for model w4 spec class_label prediction w7 w8 e
  proof -
    from that have h: "homepage E w0 = (w8, Raised e)" by (simp add: u)
    from lime_predict_ui[OF that(7)] obtain evs where "ui w8 = ui w7 @ evs" by blast
    with that(6) have "classification_line class_label \<in> set (ui w8)"
      by (intro classification_line_kept) simp
    with h show ?thesis by simp
  qed
  have e: "homepage E w0 = (w10, Raised e) \<and> classification_line class_label \<in> set (ui w10)"
    if "load_model E = Inr model"
      "create_spectrogram (audio E) (uploaded_world w0 upload) (fst upload) = (w4, Inr spec)"
      "predictions spec model = Inr (class_label, prediction)"
      "class_label < 2" "show_xai E"
      "w7 = st (classified_world w4 class_label) [StWrite ''### XAI Metrics using LIME'']"
      "lime_predict (lime E) w7 spec model = (w8, Inr fig)"
      "grad_predict (grad E) (st w8 [StWrite ''### XAI Metrics using Grad-CAM'']) spec model
               prediction (int class_label) = (w10, Inl e)"
    for model w4 spec class_label prediction w7 w8 fig w10 e
  proof -
    from that have h: "homepage E w0 = (w10, Raised e)" by (simp add: u)
    from lime_predict_ui[OF that(7)] obtain evs where l: "ui w8 = ui w7 @ evs" by blast
    from grad_predict_ui[OF that(8)] obtain evs' where
      g: "ui w10 = ui (st w8 [StWrite ''### XAI Metrics using Grad-CAM'']) @ evs'" by blast
    from l g that(6) have "ui w10 = ui (st (classified_world w4 class_label)
          [StWrite ''### XAI Metrics using LIME'']) @ (evs @ [StWrite ''### XAI Metrics using Grad-CAM''] @ evs')"
      by (simp add: st_def)
    then have "classification_line class_label \<in> set (ui w10)"
      by (rule classification_line_kept)
    with h show ?thesis by simp
  qed
  have a': "\<forall>e. load_model E = Inl e \<longrightarrow>
        homepage E w0 =
          (st (uploaded_world w0 upload) [StError (''Failed to load model: '' @ str_of_error e)],
           Stopped)"
    using a by blast
  have b': "\<forall>model w4 e.
          load_model E = Inr model
          \<and> create_spectrogram (audio E) (uploaded_world w0 upload) (fst upload) = (w4, Inl e)
          \<longrightarrow> homepage E w0 = (w4, Raised e)"
    using b by blast
  have c': "\<forall>model w4 spec e.
          load_model E = Inr model
          \<and> create_spectrogram (audio E) (uploaded_world w0 upload) (fst upload) = (w4, Inr spec)
          \<and> predictions spec model = Inl e
          \<longrightarrow> homepage E w0 = (st w4 [StWrite ''### Classification results:''], Raised e)"
    using c by blast
  have d': "\<forall>model w4 spec class_label prediction w7 w8 e.
          load_model E = Inr model
          \<and> create_spectrogram (audio E) (uploaded_world w0 upload) (fst upload) = (w4, Inr spec)
          \<and> predictions spec model = Inr (class_label, prediction)
          \<and> class_label < 2 \<and> show_xai E
          \<and> w7 = st (classified_world w4 class_label) [StWrite ''### XAI Metrics using LIME'']
          \<and> lime_predict (lime E) w7 spec model = (w8, Inl e)
          \<longrightarrow> homepage E w0 = (w8, Raised e) \<and> classification_line class_label \<in> set (ui w8)"
    using d by blast
  have e': "\<forall>model w4 spec class_label prediction w7 w8 fig w10 e.
          load_model E = Inr model
          \<and> create_spectrogram (audio E) (uploaded_world w0 upload) (fst upload) = (w4, Inr spec)
          \<and> predictions spec model = Inr (class_label, prediction)
          \<and> class_label < 2 \<and> show_xai E
          \<and> w7 = st (classified_world w4 class_label) [StWrite ''### XAI Metrics using LIME'']
          \<and> lime_predict (lime E) w7 spec model = (w8, Inr fig)
          \<and> grad_predict (grad E) (st w8 [StWrite ''### XAI Metrics using Grad-CAM'']) spec model
               prediction (int class_label) = (w10, Inl e)
          \<longrightarrow> homepage E w0 = (w10, Raised e) \<and> classification_line class_label \<in> set (ui w10)"
    using e by blast
  show ?thesis
    by (rule conjI[OF a' conjI[OF b' conjI[OF c' conjI[OF d' e']]]])
qed

theorem homepage_short_circuit_witness:
  "uploaded_file xai_env = Some (''silence.wav'', [0, 0, 0, 0])
   \<and> snd (homepage xai_env blank_world) = Raised (LibraryError ''ValueError'' ''segmentation failed'')
   \<and> classification_line 1 \<in> set (ui (fst (homepage xai_env blank_world)))"
proof -
  define up :: "string \<times> byte list" where "up = (''silence.wav'', [0, 0, 0, 0])"
  define spec :: image where "spec = replicate 224 (replicate 224 [68, 1, 84])"
  define w4 where "w4 = fst (create_spectrogram quiet_libs (uploaded_world blank_world up) ''silence.wav'')"
  define w7 where "w7 = st (classified_world w4 1) [StWrite ''### XAI Metrics using LIME'']"
  have u: "uploaded_file xai_env = Some up" by (simp add: upload_xai up_def)
  note t = homepage_short_circuit[OF u, of blank_world]
  have m: "load_model xai_env = Inr skewed_model" by (simp add: xai_env_def)
  have c: "create_spectrogram (audio xai_env) (uploaded_world blank_world up) (fst up) = (w4, Inr spec)"
    using spectrogram_xai
    by (simp add: w4_def spec_def up_def xai_env_def prod_eq_iff)
  have p: "predictions spec skewed_model = Inr (1, [[1 / 4, 3 / 4]])"
    by (simp add: predictions_def skewed_model_def np_argmax_def)
  have x: "show_xai xai_env" by (simp add: xai_env_def)
  have l: "lime_predict (lime xai_env) w7 spec skewed_model
             = (w7, Inl (LibraryError ''ValueError'' ''segmentation failed''))"
    by (simp add: xai_env_def failing_lime_fails)
  have k: "(1::nat) < 2" by simp
  from conjunct1[OF conjunct2[OF conjunct2[OF conjunct2[OF t]]]] m c p k x w7_def l
  have "homepage xai_env blank_world
          = (w7, Raised (LibraryError ''ValueError'' ''segmentation failed''))
        \<and> classification_line 1 \<in> set (ui w7)"
    by blast
  with u show ?thesis by (simp add: up_def)
qed

end
